theory Spec2Isabelle
  imports Main
begin

section \<open>The exchange state model of loopring\_v3.js (src/types.ts)\<close>

text \<open>
  The classes \<open>StorageLeaf\<close>, \<open>BalanceLeaf\<close>, \<open>AccountLeaf\<close> and \<open>ExchangeState\<close> of
  \<open>types.ts\<close> are embedded as records, their methods as functions that take the object
  and return the method's result together with the updated object.

  \<^item> A TypeScript \<open>number\<close> that holds an identifier, an index or a counter is an \<open>int\<close>
    (fractions, \<open>NaN\<close> and the infinities are outside the model); a \<open>BN\<close> is an \<open>int\<close>.
  \<^item> An object used as a dictionary, \<open>{ [key: number]: V }\<close>, is a map \<open>int \<rightharpoonup> V\<close>;
    \<open>None\<close> is JavaScript's \<open>undefined\<close> for an absent key.
  \<^item> An expression that may evaluate to \<open>undefined\<close> (a dictionary or array read) has an
    \<open>option\<close> type, \<open>None\<close> being \<open>undefined\<close>.
  \<^item> An object is identified with the slot that holds it: an account with its index in
    \<open>accounts\<close>, a leaf with its key in the dictionary of its account.
\<close>

subsection \<open>Constants\<close>

text \<open>
  \<open>constants.ts\<close> is not among the sources. The two constants that \<open>types.ts\<close> reads from
  it, \<open>Constants.zeroAddress\<close> and \<open>Constants.BINARY_TREE_DEPTH_STORAGE\<close> (the
  \<open>STORAGE_DEPTH\<close> of the specification), are therefore parameters of the model: every
  function that reads one of them takes the record of constants as its first argument.
\<close>

record Constants =
  zeroAddress :: string
  BINARY_TREE_DEPTH_STORAGE :: nat

text \<open>
  Modelled from the spec: the values of \<open>constants.ts\<close> used in the scenarios, namely
  \<open>STORAGE_DEPTH = 14\<close> (section 8 of the specification) and the well-known zero address
  sentinel (section 6), taken to be the 20-byte zero address.
\<close>

definition scenario_constants :: Constants where
  "scenario_constants =
     \<lparr> zeroAddress = ''0x0000000000000000000000000000000000000000'',
       BINARY_TREE_DEPTH_STORAGE = 14 \<rparr>"

subsection \<open>Arithmetic of JavaScript\<close>

text \<open>
  The operator \<open>%\<close> of JavaScript on integers: the remainder of the truncating division,
  which has the sign of the dividend (\<open>-1 % 16384\<close> is \<open>-1\<close>). The divisor of the one use
  in \<open>types.ts\<close> is a power of two, never zero.
\<close>

definition js_rem :: "int \<Rightarrow> int \<Rightarrow> int" where
  "js_rem a b = sgn a * (\<bar>a\<bar> mod \<bar>b\<bar>)"

text \<open>
  An array read \<open>xs[i]\<close>: \<open>undefined\<close> outside \<open>0 .. xs.length - 1\<close>.
\<close>

definition js_index :: "'a list \<Rightarrow> int \<Rightarrow> 'a option" where
  "js_index xs i = (if 0 \<le> i \<and> i < int (length xs) then Some (xs ! nat i) else None)"

subsection \<open>Request records held by the state\<close>

record Deposit =
  exchange :: string
  blockIdx :: "int option"
  requestIdx :: "int option"
  timestamp :: int
  owner :: string
  token :: int
  amount :: int
  fee :: int
  transactionHash :: string

record OnchainWithdrawal =
  exchange :: string
  blockIdx :: "int option"
  requestIdx :: "int option"
  withdrawalIdx :: int
  timestamp :: int
  accountID :: int
  tokenID :: int
  amountRequested :: int
  amountWithdrawn :: "int option"
  transactionHash :: string

text \<open>
  \<open>processedRequests\<close> is declared \<open>any[]\<close>, and the Merkle trees attached to an account
  are objects of the external class \<open>SparseMerkleTree\<close>: no operation of \<open>types.ts\<close> looks
  inside either, so both are opaque types.
\<close>

typedecl any

typedecl SparseMerkleTree

subsection \<open>StorageLeaf\<close>

record StorageLeaf =
  data :: int
  storageID :: int
  gasFee :: int
  cancelled :: int
  tokenSID :: int
  tokenBID :: int
  forward :: int

text \<open>The constructor \<open>new StorageLeaf()\<close>.\<close>

definition StorageLeaf_new :: StorageLeaf where
  "StorageLeaf_new =
     \<lparr> data = 0, storageID = 0, gasFee = 0, cancelled = 0,
       tokenSID = 0, tokenBID = 0, forward = 1 \<rparr>"

subsection \<open>BalanceLeaf\<close>

record BalanceLeaf =
  balance :: int

text \<open>The constructor \<open>new BalanceLeaf()\<close>.\<close>

definition BalanceLeaf_new :: BalanceLeaf where
  "BalanceLeaf_new = \<lparr> balance = 0 \<rparr>"

text \<open>\<open>BalanceLeaf.init(balance)\<close>: the balance is copied through its decimal string.\<close>

definition BalanceLeaf_init :: "int \<Rightarrow> BalanceLeaf \<Rightarrow> BalanceLeaf" where
  "BalanceLeaf_init b l = l\<lparr> balance := b \<rparr>"

subsection \<open>AccountLeaf\<close>

record AccountLeaf =
  exchange :: string
  accountId :: int
  owner :: string
  publicKeyX :: string
  publicKeyY :: string
  appKeyPublicKeyX :: string
  appKeyPublicKeyY :: string
  disableAppKeySpotTrade :: int
  disableAppKeyWithdraw :: int
  disableAppKeyTransferToOther :: int
  nonce :: int
  balances :: "int \<rightharpoonup> BalanceLeaf"
  balancesMerkleTree :: "SparseMerkleTree option"
  storage :: "int \<rightharpoonup> StorageLeaf"
  storageTree :: "SparseMerkleTree option"

text \<open>
  The constructor \<open>new AccountLeaf(accountId)\<close>. The two optional tree fields are not
  assigned and stay \<open>undefined\<close>.
\<close>

definition AccountLeaf_new :: "Constants \<Rightarrow> int \<Rightarrow> AccountLeaf" where
  "AccountLeaf_new K accId =
     \<lparr> exchange = zeroAddress K,
       accountId = accId,
       owner = zeroAddress K,
       publicKeyX = ''0'',
       publicKeyY = ''0'',
       appKeyPublicKeyX = ''0'',
       appKeyPublicKeyY = ''0'',
       disableAppKeySpotTrade = 0,
       disableAppKeyWithdraw = 0,
       disableAppKeyTransferToOther = 0,
       nonce = 0,
       balances = Map.empty,
       balancesMerkleTree = None,
       storage = Map.empty,
       storageTree = None \<rparr>"

text \<open>
  \<open>AccountLeaf.init(owner, publicKeyX, publicKeyY, appKeyPublicKeyX, appKeyPublicKeyY,
  nonce, balances = {}, storage = {})\<close>. An omitted (\<open>None\<close>) dictionary argument takes
  the default \<open>{}\<close>. The body assigns \<open>this.accountId = 0\<close>.
\<close>

definition AccountLeaf_init ::
  "Constants \<Rightarrow> string \<Rightarrow> string \<Rightarrow> string \<Rightarrow> string \<Rightarrow> string \<Rightarrow> int \<Rightarrow>
   (int \<rightharpoonup> BalanceLeaf) option \<Rightarrow> (int \<rightharpoonup> StorageLeaf) option \<Rightarrow>
   AccountLeaf \<Rightarrow> AccountLeaf" where
  "AccountLeaf_init K own pkX pkY appX appY nce bals stor a =
     a\<lparr> AccountLeaf.exchange := zeroAddress K,
        accountId := 0,
        AccountLeaf.owner := own,
        publicKeyX := pkX,
        publicKeyY := pkY,
        appKeyPublicKeyX := appX,
        appKeyPublicKeyY := appY,
        nonce := nce,
        balances := (case bals of None \<Rightarrow> Map.empty | Some b \<Rightarrow> b),
        storage := (case stor of None \<Rightarrow> Map.empty | Some st \<Rightarrow> st) \<rparr>"

text \<open>
  \<open>AccountLeaf.getBalance(tokenID)\<close>: the result is the read \<open>this.balances[tokenID]\<close>
  after the get-or-create step, paired with the updated account.
\<close>

definition getBalance :: "int \<Rightarrow> AccountLeaf \<Rightarrow> BalanceLeaf option \<times> AccountLeaf" where
  "getBalance tokID a =
     (let a' = (if balances a tokID = None
                then a\<lparr> balances := (balances a)(tokID \<mapsto> BalanceLeaf_new) \<rparr>
                else a)
      in (balances a' tokID, a'))"

text \<open>
  \<open>const address = storageID % 2 ** Constants.BINARY_TREE_DEPTH_STORAGE\<close>, the first
  statement of \<open>getStorage\<close>.
\<close>

definition storage_address :: "Constants \<Rightarrow> int \<Rightarrow> int" where
  "storage_address K stID = js_rem stID (2 ^ BINARY_TREE_DEPTH_STORAGE K)"

text \<open>\<open>AccountLeaf.getStorage(storageID)\<close>.\<close>

definition getStorage ::
  "Constants \<Rightarrow> int \<Rightarrow> AccountLeaf \<Rightarrow> StorageLeaf option \<times> AccountLeaf" where
  "getStorage K stID a =
     (let address = storage_address K stID;
          a' = (if storage a address = None
                then a\<lparr> storage := (storage a)(address \<mapsto> StorageLeaf_new) \<rparr>
                else a)
      in (storage a' address, a'))"

subsection \<open>ExchangeState\<close>

record ExchangeState =
  exchange :: string
  accounts :: "AccountLeaf list"
  accountIdToOwner :: "int \<rightharpoonup> string"
  ownerToAccountId :: "string \<rightharpoonup> int"
  deposits :: "Deposit list"
  onchainWithdrawals :: "OnchainWithdrawal list"
  processedRequests :: "any list"

text \<open>
  The loop of \<open>getAccount\<close>, on the array it grows:
  \<^verbatim>\<open>while (accountID >= this.accounts.length) {
    this.accounts.push(new AccountLeaf(this.accounts.length)); }\<close>
\<close>

function getAccount_loop :: "Constants \<Rightarrow> int \<Rightarrow> AccountLeaf list \<Rightarrow> AccountLeaf list" where
  "getAccount_loop K accID accs =
     (if accID \<ge> int (length accs)
      then getAccount_loop K accID (accs @ [AccountLeaf_new K (int (length accs))])
      else accs)"
  by pat_completeness auto
termination
  by (relation "measure (\<lambda>(K, accID, accs). nat (accID + 1 - int (length accs)))") auto

declare getAccount_loop.simps [simp del]

text \<open>
  \<open>ExchangeState.getAccount(accountID)\<close>: the result is the read
  \<open>this.accounts[accountID]\<close> after the loop, paired with the updated state.
\<close>

definition getAccount ::
  "Constants \<Rightarrow> int \<Rightarrow> ExchangeState \<Rightarrow> AccountLeaf option \<times> ExchangeState" where
  "getAccount K accID s =
     (let s' = s\<lparr> accounts := getAccount_loop K accID (accounts s) \<rparr>
      in (js_index (accounts s') accID, s'))"

text \<open>
  The constructor \<open>new ExchangeState(exchange, accounts = [])\<close>; an omitted (\<open>None\<close>)
  account list takes the default \<open>[]\<close>. The last statement is \<open>this.getAccount(0)\<close>, whose
  result is dropped.
\<close>

definition ExchangeState_new ::
  "Constants \<Rightarrow> string \<Rightarrow> AccountLeaf list option \<Rightarrow> ExchangeState" where
  "ExchangeState_new K exch accs =
     snd (getAccount K 0
       \<lparr> exchange = exch,
         accounts = (case accs of None \<Rightarrow> [] | Some a \<Rightarrow> a),
         accountIdToOwner = Map.empty,
         ownerToAccountId = Map.empty,
         deposits = [],
         onchainWithdrawals = [],
         processedRequests = [] \<rparr>)"

subsection \<open>The owner index\<close>

text \<open>
  The specification of the two dictionaries \<open>accountIdToOwner\<close> and \<open>ownerToAccountId\<close>.
  An account is registered when its owner is not the zero address; \<open>registered K s i o\<close>
  says that index \<open>i\<close> of \<open>accounts\<close> holds a registered account with owner \<open>o\<close>.
\<close>

definition registered :: "Constants \<Rightarrow> ExchangeState \<Rightarrow> int \<Rightarrow> string \<Rightarrow> bool" where
  "registered K s accID own =
     (0 \<le> accID \<and> accID < int (length (accounts s))
      \<and> AccountLeaf.owner (accounts s ! nat accID) = own \<and> own \<noteq> zeroAddress K)"

text \<open>
  The two dictionaries form an exact bijection over the registered accounts: each holds
  exactly the pairs of a registered account and its owner, in its own direction. In
  particular \<open>ownerToAccountId[accountIdToOwner[i]] = i\<close> for every registered \<open>i\<close>.
\<close>

definition owner_bijection :: "Constants \<Rightarrow> ExchangeState \<Rightarrow> bool" where
  "owner_bijection K s =
     ((\<forall>accID own. accountIdToOwner s accID = Some own \<longleftrightarrow> registered K s accID own)
      \<and> (\<forall>accID own. ownerToAccountId s own = Some accID \<longleftrightarrow> registered K s accID own))"

text \<open>
  The states reachable by the operations of \<open>ExchangeState\<close>: the constructor, called with
  the account list \<open>accs\<close>, followed by any number of calls of \<open>getAccount\<close>.
\<close>

inductive reachable :: "Constants \<Rightarrow> AccountLeaf list option \<Rightarrow> ExchangeState \<Rightarrow> bool"
  for K :: Constants and accs :: "AccountLeaf list option" where
  constructed: "reachable K accs (ExchangeState_new K exch accs)"
| got_account: "reachable K accs s \<Longrightarrow> reachable K accs (snd (getAccount K accID s))"

section \<open>Auxiliary facts\<close>

subsection \<open>The remainder\<close>

lemma js_rem_nonneg: "0 \<le> a \<Longrightarrow> js_rem a b = a mod \<bar>b\<bar>"
  by (cases "a = 0") (simp_all add: js_rem_def)

lemma js_rem_nonpos: "a \<le> 0 \<Longrightarrow> js_rem a b = - ((- a) mod \<bar>b\<bar>)"
  by (cases "a = 0") (simp_all add: js_rem_def)

lemma js_rem_shift:
  assumes m: "0 < m"
    and sgn: "(0 \<le> s \<and> 0 \<le> s + k * m) \<or> (s \<le> 0 \<and> s + k * m \<le> 0)"
  shows "js_rem (s + k * m) m = js_rem s m"
  using sgn
proof
  assume "0 \<le> s \<and> 0 \<le> s + k * m"
  then have "js_rem (s + k * m) m = (s + k * m) mod \<bar>m\<bar>" and "js_rem s m = s mod \<bar>m\<bar>"
    by (simp_all add: js_rem_nonneg)
  with m show ?thesis by simp
next
  assume "s \<le> 0 \<and> s + k * m \<le> 0"
  then have "js_rem (s + k * m) m = - ((- (s + k * m)) mod \<bar>m\<bar>)"
    and "js_rem s m = - ((- s) mod \<bar>m\<bar>)"
    by (simp_all add: js_rem_nonpos)
  moreover have "(- (s + k * m)) mod m = (- s) mod m"
  proof -
    have "- (s + k * m) = - s + (- k) * m"
      by (simp add: algebra_simps)
    then have "(- (s + k * m)) mod m = (- s + (- k) * m) mod m"
      by (rule arg_cong)
    also have "\<dots> = (- s) mod m"
      by (rule mod_mult_self1)
    finally show ?thesis .
  qed
  ultimately show ?thesis using m by simp
qed

subsection \<open>The loop of getAccount\<close>

text \<open>
  The loop appends the fresh accounts numbered from the old length up to the requested
  identifier, and nothing when the identifier is below the length.
\<close>

lemma getAccount_loop_eq:
  "getAccount_loop K accID accs =
     accs @ map (\<lambda>i. AccountLeaf_new K (int i)) [length accs ..< nat (accID + 1)]"
proof (induction K accID accs rule: getAccount_loop.induct)
  case (1 K accID accs)
  show ?case
  proof (cases "accID \<ge> int (length accs)")
    case True
    then have "[length accs ..< nat (accID + 1)]
        = length accs # [Suc (length accs) ..< nat (accID + 1)]"
      by (simp add: upt_conv_Cons)
    with True 1 show ?thesis by (subst getAccount_loop.simps) simp
  next
    case False
    then show ?thesis by (subst getAccount_loop.simps) simp
  qed
qed

lemma getAccount_loop_length:
  "length (getAccount_loop K accID accs) = max (length accs) (nat (accID + 1))"
  by (simp add: getAccount_loop_eq)

lemma getAccount_loop_fixed:
  "getAccount_loop K accID (getAccount_loop K accID accs) = getAccount_loop K accID accs"
proof -
  have "accID < int (length (getAccount_loop K accID accs))"
    by (simp add: getAccount_loop_length)
  then show ?thesis
    by (subst getAccount_loop.simps) simp
qed

lemma getAccount_accounts:
  "accounts (snd (getAccount K accID s)) =
     accounts s @ map (\<lambda>i. AccountLeaf_new K (int i)) [length (accounts s) ..< nat (accID + 1)]"
  by (simp add: getAccount_def Let_def getAccount_loop_eq)

lemma getAccount_frame:
  "snd (getAccount K accID s) = s\<lparr> accounts := accounts (snd (getAccount K accID s)) \<rparr>"
  by (simp add: getAccount_def Let_def)

section \<open>Properties\<close>

subsection \<open>ExchangeState\<close>

text \<open>
  C1. For every \<open>accountId \<ge> 0\<close>, after \<open>getAccount(accountId)\<close> the array has at least
  \<open>accountId + 1\<close> elements and the call returned the account stored at index
  \<open>accountId\<close>; a second call returns the same account and leaves the state, hence the
  length of the array, as it is.
\<close>

theorem getAccount_idempotent:
  assumes "0 \<le> accID"
  shows "int (length (accounts (snd (getAccount K accID s)))) \<ge> accID + 1
    \<and> fst (getAccount K accID s) = Some (accounts (snd (getAccount K accID s)) ! nat accID)
    \<and> fst (getAccount K accID (snd (getAccount K accID s))) = fst (getAccount K accID s)
    \<and> snd (getAccount K accID (snd (getAccount K accID s))) = snd (getAccount K accID s)
    \<and> length (accounts (snd (getAccount K accID (snd (getAccount K accID s)))))
        = length (accounts (snd (getAccount K accID s)))"
proof -
  let ?s1 = "snd (getAccount K accID s)"
  have len: "int (length (accounts ?s1)) \<ge> accID + 1"
    by (simp add: getAccount_def Let_def getAccount_loop_length)
  have res: "fst (getAccount K accID s) = Some (accounts ?s1 ! nat accID)"
    using assms len by (simp add: getAccount_def Let_def js_index_def)
  have again: "getAccount K accID ?s1 = (fst (getAccount K accID s), ?s1)"
    by (simp add: getAccount_def Let_def getAccount_loop_fixed)
  from len res again show ?thesis by simp
qed

theorem getAccount_idempotent_witness:
  "(0::int) \<le> 5
   \<and> int (length (accounts (snd (getAccount scenario_constants 5
         (ExchangeState_new scenario_constants ''0xEXC'' None))))) \<ge> 5 + 1
   \<and> fst (getAccount scenario_constants 5 (snd (getAccount scenario_constants 5
         (ExchangeState_new scenario_constants ''0xEXC'' None))))
     = fst (getAccount scenario_constants 5
         (ExchangeState_new scenario_constants ''0xEXC'' None))
   \<and> snd (getAccount scenario_constants 5 (snd (getAccount scenario_constants 5
         (ExchangeState_new scenario_constants ''0xEXC'' None))))
     = snd (getAccount scenario_constants 5
         (ExchangeState_new scenario_constants ''0xEXC'' None))"
  using getAccount_idempotent
    [of 5 scenario_constants "ExchangeState_new scenario_constants ''0xEXC'' None"]
  by simp

text \<open>
  C3. Constructing a state with an empty or omitted account list leaves exactly one
  account, the fresh account 0 (the fee pool); whatever list is supplied, the constructed
  state has at least one account and \<open>accounts[0]\<close> is defined.
\<close>

theorem ExchangeState_new_fee_pool:
  "length (accounts (ExchangeState_new K exch None)) = 1
   \<and> length (accounts (ExchangeState_new K exch (Some []))) = 1
   \<and> accounts (ExchangeState_new K exch None) = [AccountLeaf_new K 0]
   \<and> accounts (ExchangeState_new K exch (Some [])) = [AccountLeaf_new K 0]
   \<and> length (accounts (ExchangeState_new K exch accs)) \<ge> 1
   \<and> js_index (accounts (ExchangeState_new K exch accs)) 0 \<noteq> None"
proof -
  have one: "accounts (ExchangeState_new K exch None) = [AccountLeaf_new K 0]"
    "accounts (ExchangeState_new K exch (Some [])) = [AccountLeaf_new K 0]"
    by (simp_all add: ExchangeState_new_def getAccount_accounts)
  have ge: "length (accounts (ExchangeState_new K exch accs)) \<ge> 1"
    by (simp add: ExchangeState_new_def getAccount_def Let_def getAccount_loop_length)
  then have "js_index (accounts (ExchangeState_new K exch accs)) 0 \<noteq> None"
    by (auto simp: js_index_def)
  with one ge show ?thesis by simp
qed

text \<open>
  C10. Constructing a state with a supplied non-empty account list keeps the list as it
  is: the call \<open>getAccount(0)\<close> of the constructor appends nothing, and no account is
  renumbered or checked, whatever the \<open>accountId\<close> fields of the supplied accounts are.
\<close>

theorem ExchangeState_new_keeps_accounts:
  "a \<noteq> [] \<Longrightarrow> accounts (ExchangeState_new K exch (Some a)) = a"
  by (simp add: ExchangeState_new_def getAccount_accounts)

theorem ExchangeState_new_keeps_accounts_witness:
  "[AccountLeaf_new scenario_constants 7, AccountLeaf_new scenario_constants 7] \<noteq> []
   \<and> accounts (ExchangeState_new scenario_constants ''0xEXC''
        (Some [AccountLeaf_new scenario_constants 7, AccountLeaf_new scenario_constants 7]))
     = [AccountLeaf_new scenario_constants 7, AccountLeaf_new scenario_constants 7]
   \<and> accountId (AccountLeaf_new scenario_constants 7) \<noteq> 0"
  using ExchangeState_new_keeps_accounts
    [of "[AccountLeaf_new scenario_constants 7, AccountLeaf_new scenario_constants 7]"
        scenario_constants "''0xEXC''"]
  by (simp add: AccountLeaf_new_def)

subsection \<open>StorageLeaf\<close>

text \<open>
  C9. A freshly constructed storage leaf has \<open>forward = 1\<close> and every other field zero:
  \<open>data\<close>, \<open>storageID\<close>, \<open>gasFee\<close>, \<open>cancelled\<close>, \<open>tokenSID\<close> and \<open>tokenBID\<close>.
\<close>

theorem StorageLeaf_new_fields:
  "forward StorageLeaf_new = 1 \<and> data StorageLeaf_new = 0 \<and> storageID StorageLeaf_new = 0
   \<and> gasFee StorageLeaf_new = 0 \<and> cancelled StorageLeaf_new = 0
   \<and> tokenSID StorageLeaf_new = 0 \<and> tokenBID StorageLeaf_new = 0"
  by (simp add: StorageLeaf_new_def)

subsection \<open>AccountLeaf and the growth of the account array\<close>

text \<open>
  C4. For every \<open>tokenID\<close>, \<open>getBalance(tokenID)\<close> returns the leaf stored at that key if
  there is one, leaving the account as it is, and otherwise stores a zero leaf
  (\<open>balance = 0\<close>) at the key and returns it. The result is never \<open>undefined\<close>; no entry
  is removed or modified, and no other field of the account changes.
\<close>

theorem getBalance_get_or_create:
  "(\<forall>l. balances a tokID = Some l \<longrightarrow> getBalance tokID a = (Some l, a))
   \<and> (balances a tokID = None \<longrightarrow>
        getBalance tokID a
          = (Some BalanceLeaf_new, a\<lparr> balances := (balances a)(tokID \<mapsto> BalanceLeaf_new) \<rparr>))
   \<and> balance BalanceLeaf_new = 0
   \<and> (balances a tokID = None \<longrightarrow>
        (\<exists>l. fst (getBalance tokID a) = Some l \<and> balance l = 0))
   \<and> (\<exists>l. fst (getBalance tokID a) = Some l)
   \<and> fst (getBalance tokID a) = balances (snd (getBalance tokID a)) tokID
   \<and> (\<forall>t l. balances a t = Some l \<longrightarrow> balances (snd (getBalance tokID a)) t = Some l)
   \<and> (\<forall>t. t \<noteq> tokID \<longrightarrow> balances (snd (getBalance tokID a)) t = balances a t)
   \<and> snd (getBalance tokID a) = a\<lparr> balances := balances (snd (getBalance tokID a)) \<rparr>"
  by (auto simp: getBalance_def Let_def BalanceLeaf_new_def)

theorem getBalance_get_or_create_witness:
  "balances (AccountLeaf_new scenario_constants 2) 3 = None
   \<and> fst (getBalance 3 (AccountLeaf_new scenario_constants 2)) = Some BalanceLeaf_new
   \<and> balances ((AccountLeaf_new scenario_constants 2)
        \<lparr> balances := [3 \<mapsto> \<lparr> balance = 1000 \<rparr>] \<rparr>) 3 = Some \<lparr> balance = 1000 \<rparr>
   \<and> getBalance 3 ((AccountLeaf_new scenario_constants 2)
        \<lparr> balances := [3 \<mapsto> \<lparr> balance = 1000 \<rparr>] \<rparr>)
      = (Some \<lparr> balance = 1000 \<rparr>,
         (AccountLeaf_new scenario_constants 2) \<lparr> balances := [3 \<mapsto> \<lparr> balance = 1000 \<rparr>] \<rparr>)
   \<and> balances (snd (getBalance 4 ((AccountLeaf_new scenario_constants 2)
        \<lparr> balances := [3 \<mapsto> \<lparr> balance = 1000 \<rparr>] \<rparr>))) 3 = Some \<lparr> balance = 1000 \<rparr>"
  using getBalance_get_or_create [of "AccountLeaf_new scenario_constants 2" 3]
    getBalance_get_or_create
      [of "(AccountLeaf_new scenario_constants 2) \<lparr> balances := [3 \<mapsto> \<lparr> balance = 1000 \<rparr>] \<rparr>" 3]
    getBalance_get_or_create
      [of "(AccountLeaf_new scenario_constants 2) \<lparr> balances := [3 \<mapsto> \<lparr> balance = 1000 \<rparr>] \<rparr>" 4]
  by (simp add: AccountLeaf_new_def)

lemma storage_address_nonneg:
  "0 \<le> stID \<Longrightarrow> storage_address K stID = stID mod 2 ^ BINARY_TREE_DEPTH_STORAGE K"
  by (simp add: storage_address_def js_rem_nonneg)

lemma storage_address_nonpos:
  "stID \<le> 0 \<Longrightarrow> storage_address K stID = - ((- stID) mod 2 ^ BINARY_TREE_DEPTH_STORAGE K)"
  by (simp add: storage_address_def js_rem_nonpos)

lemma storage_address_shift:
  "(0 \<le> s \<and> 0 \<le> s + k * 2 ^ BINARY_TREE_DEPTH_STORAGE K)
     \<or> (s \<le> 0 \<and> s + k * 2 ^ BINARY_TREE_DEPTH_STORAGE K \<le> 0)
   \<Longrightarrow> storage_address K (s + k * 2 ^ BINARY_TREE_DEPTH_STORAGE K) = storage_address K s"
  unfolding storage_address_def by (rule js_rem_shift) simp_all

lemma getStorage_again:
  "storage_address K s' = storage_address K s
   \<Longrightarrow> getStorage K s' (snd (getStorage K s a)) = getStorage K s a"
  by (simp add: getStorage_def Let_def)

text \<open>
  C5, as amended. For every \<open>storageID\<close>, \<open>getStorage(storageID)\<close> computes
  \<open>address = storageID % 2 ** STORAGE_DEPTH\<close> and returns the leaf stored at that address,
  whatever its \<open>storageID\<close> field is, or, when the address is unset, stores a zero leaf
  there (\<open>storageID = 0\<close>, \<open>data = 0\<close>) and returns it. For \<open>storageID \<ge> 0\<close> the address is
  \<open>storageID mod 2 ^ STORAGE_DEPTH\<close>; for \<open>storageID \<le> 0\<close> it is
  \<open>- ((- storageID) mod 2 ^ STORAGE_DEPTH)\<close>, the remainder having the sign of the dividend.
\<close>

theorem getStorage_get_or_create:
  "(\<forall>l. storage a (storage_address K stID) = Some l \<longrightarrow> getStorage K stID a = (Some l, a))
   \<and> (storage a (storage_address K stID) = None \<longrightarrow>
        getStorage K stID a
          = (Some StorageLeaf_new,
             a\<lparr> storage := (storage a)(storage_address K stID \<mapsto> StorageLeaf_new) \<rparr>))
   \<and> storageID StorageLeaf_new = 0 \<and> data StorageLeaf_new = 0
   \<and> (0 \<le> stID \<longrightarrow> storage_address K stID = stID mod 2 ^ BINARY_TREE_DEPTH_STORAGE K)
   \<and> (stID \<le> 0 \<longrightarrow>
        storage_address K stID = - ((- stID) mod 2 ^ BINARY_TREE_DEPTH_STORAGE K))"
  by (auto simp: getStorage_def Let_def StorageLeaf_new_def
      storage_address_nonneg storage_address_nonpos)

text \<open>
  C5 as stated fails for a negative \<open>storageID\<close>: with \<open>STORAGE_DEPTH = 14\<close>,
  \<open>getStorage(-1)\<close> on a fresh account stores the new leaf at key \<open>-1\<close>, and the address
  \<open>(-1) mod 2 ^ 14 = 16383\<close> stays unset.
\<close>

theorem getStorage_negative_counterexample:
  "fst (getStorage scenario_constants (- 1) (AccountLeaf_new scenario_constants 0))
     = Some StorageLeaf_new
   \<and> storage (snd (getStorage scenario_constants (- 1) (AccountLeaf_new scenario_constants 0)))
       ((- 1) mod 2 ^ BINARY_TREE_DEPTH_STORAGE scenario_constants) = None
   \<and> storage (snd (getStorage scenario_constants (- 1) (AccountLeaf_new scenario_constants 0)))
       (- 1) = Some StorageLeaf_new"
  by (simp add: getStorage_def Let_def storage_address_def js_rem_def scenario_constants_def
      AccountLeaf_new_def)

text \<open>
  C6, as amended. For every \<open>storageID\<close> \<open>s\<close> and every integer \<open>k\<close> such that \<open>s\<close> and
  \<open>s + k * 2 ^ STORAGE_DEPTH\<close> are both non-negative (or both non-positive), the two
  identifiers have the same storage address; \<open>getStorage\<close> then gives the same result for
  both on the same account, and \<open>getStorage(s + k * 2 ^ STORAGE_DEPTH)\<close> after
  \<open>getStorage(s)\<close> returns the same leaf and leaves the account as it is.
\<close>

theorem storage_address_cyclic:
  assumes "(0 \<le> s \<and> 0 \<le> s + k * 2 ^ BINARY_TREE_DEPTH_STORAGE K)
     \<or> (s \<le> 0 \<and> s + k * 2 ^ BINARY_TREE_DEPTH_STORAGE K \<le> 0)"
  shows "storage_address K (s + k * 2 ^ BINARY_TREE_DEPTH_STORAGE K) = storage_address K s
    \<and> getStorage K (s + k * 2 ^ BINARY_TREE_DEPTH_STORAGE K) a = getStorage K s a
    \<and> getStorage K (s + k * 2 ^ BINARY_TREE_DEPTH_STORAGE K) (snd (getStorage K s a))
        = getStorage K s a"
proof -
  have addr: "storage_address K (s + k * 2 ^ BINARY_TREE_DEPTH_STORAGE K) = storage_address K s"
    using assms by (rule storage_address_shift)
  then have "getStorage K (s + k * 2 ^ BINARY_TREE_DEPTH_STORAGE K) a = getStorage K s a"
    by (simp add: getStorage_def)
  with addr show ?thesis by (simp add: getStorage_again)
qed

text \<open>
  C6 as stated fails when the two identifiers differ in sign: with \<open>STORAGE_DEPTH = 14\<close>,
  the address of \<open>17\<close> is \<open>17\<close> and the address of \<open>17 - 16384\<close> is \<open>- 16367\<close>.
\<close>

theorem storage_address_cyclic_counterexample:
  "storage_address scenario_constants (17 + (- 1) * 2 ^ BINARY_TREE_DEPTH_STORAGE scenario_constants)
     \<noteq> storage_address scenario_constants 17"
  by (simp add: storage_address_def js_rem_def scenario_constants_def)

theorem storage_address_cyclic_witness:
  "((0::int) \<le> 17 \<and> (0::int) \<le> 17 + 1 * 2 ^ BINARY_TREE_DEPTH_STORAGE scenario_constants)
   \<and> storage_address scenario_constants (17 + 1 * 2 ^ BINARY_TREE_DEPTH_STORAGE scenario_constants)
       = storage_address scenario_constants 17
   \<and> storage_address scenario_constants 17 = 17
   \<and> getStorage scenario_constants (17 + 16384) (AccountLeaf_new scenario_constants 0)
       = getStorage scenario_constants 17 (AccountLeaf_new scenario_constants 0)
   \<and> getStorage scenario_constants (17 + 16384)
         (snd (getStorage scenario_constants 17 (AccountLeaf_new scenario_constants 0)))
       = getStorage scenario_constants 17 (AccountLeaf_new scenario_constants 0)"
proof -
  have h: "((0::int) \<le> 17 \<and> (0::int) \<le> 17 + 1 * 2 ^ BINARY_TREE_DEPTH_STORAGE scenario_constants)
      \<or> ((17::int) \<le> 0 \<and> 17 + 1 * 2 ^ BINARY_TREE_DEPTH_STORAGE scenario_constants \<le> 0)"
    by (simp add: scenario_constants_def)
  have d: "(2::int) ^ BINARY_TREE_DEPTH_STORAGE scenario_constants = 16384"
    by (simp add: scenario_constants_def)
  have a: "storage_address scenario_constants 17 = 17"
    by (simp add: storage_address_def js_rem_def scenario_constants_def)
  show ?thesis
    using storage_address_cyclic [OF h, of "AccountLeaf_new scenario_constants 0"] a d
    by simp
qed

theorem getStorage_get_or_create_witness:
  "storage (AccountLeaf_new scenario_constants 0) (storage_address scenario_constants 17) = None
   \<and> getStorage scenario_constants 17 (AccountLeaf_new scenario_constants 0)
      = (Some StorageLeaf_new,
         (AccountLeaf_new scenario_constants 0)
           \<lparr> storage := [storage_address scenario_constants 17 \<mapsto> StorageLeaf_new] \<rparr>)
   \<and> (0::int) \<le> 16401
   \<and> storage_address scenario_constants 16401 = 17
   \<and> getStorage scenario_constants 16401
        ((AccountLeaf_new scenario_constants 0)
           \<lparr> storage := [17 \<mapsto> StorageLeaf_new \<lparr> data := 5, storageID := 17 \<rparr>] \<rparr>)
      = (Some (StorageLeaf_new \<lparr> data := 5, storageID := 17 \<rparr>),
         (AccountLeaf_new scenario_constants 0)
           \<lparr> storage := [17 \<mapsto> StorageLeaf_new \<lparr> data := 5, storageID := 17 \<rparr>] \<rparr>)"
proof -
  have d: "(2::int) ^ BINARY_TREE_DEPTH_STORAGE scenario_constants = 16384"
    by (simp add: scenario_constants_def)
  have e: "storage (AccountLeaf_new scenario_constants 0) = Map.empty"
    by (simp add: AccountLeaf_new_def)
  show ?thesis
    using getStorage_get_or_create
      [of "AccountLeaf_new scenario_constants 0" scenario_constants 17]
      getStorage_get_or_create
      [of "(AccountLeaf_new scenario_constants 0)
           \<lparr> storage := [17 \<mapsto> StorageLeaf_new \<lparr> data := 5, storageID := 17 \<rparr>] \<rparr>"
          scenario_constants 16401] d e
    by simp
qed

text \<open>
  C7. \<open>getAccount(accountID)\<close> appends to \<open>accounts\<close> the fresh accounts numbered from the
  old length up to \<open>accountID\<close>. Each appended account is zero-valued: its \<open>exchange\<close> and
  \<open>owner\<close> are the zero address, its four keys are \<open>"0"\<close>, its three flags and its nonce
  are 0, its two dictionaries are empty and its two trees are \<open>undefined\<close>; its
  \<open>accountId\<close> is its index. The accounts already there keep their positions and values,
  and no other field of the state changes. In the scenario, \<open>getAccount(5)\<close> on the state
  constructed from the empty list gives six accounts, the zero-valued accounts 0 to 5.
\<close>

theorem getAccount_extends:
  "accounts (snd (getAccount K accID s))
     = accounts s
       @ map (\<lambda>i.
            \<lparr> AccountLeaf.exchange = zeroAddress K, accountId = int i,
              AccountLeaf.owner = zeroAddress K, publicKeyX = ''0'', publicKeyY = ''0'',
              appKeyPublicKeyX = ''0'', appKeyPublicKeyY = ''0'',
              disableAppKeySpotTrade = 0, disableAppKeyWithdraw = 0,
              disableAppKeyTransferToOther = 0, nonce = 0,
              balances = Map.empty, balancesMerkleTree = None,
              storage = Map.empty, storageTree = None \<rparr>)
           [length (accounts s) ..< nat (accID + 1)]
   \<and> length (accounts (snd (getAccount K accID s)))
       = max (length (accounts s)) (nat (accID + 1))
   \<and> (\<forall>i. i < length (accounts s) \<longrightarrow>
         accounts (snd (getAccount K accID s)) ! i = accounts s ! i)
   \<and> (\<forall>i. length (accounts s) \<le> i \<and> i < length (accounts (snd (getAccount K accID s))) \<longrightarrow>
         accounts (snd (getAccount K accID s)) ! i
           =
             \<lparr> AccountLeaf.exchange = zeroAddress K, accountId = int i,
               AccountLeaf.owner = zeroAddress K, publicKeyX = ''0'', publicKeyY = ''0'',
               appKeyPublicKeyX = ''0'', appKeyPublicKeyY = ''0'',
               disableAppKeySpotTrade = 0, disableAppKeyWithdraw = 0,
               disableAppKeyTransferToOther = 0, nonce = 0,
               balances = Map.empty, balancesMerkleTree = None,
               storage = Map.empty, storageTree = None \<rparr>
         \<and> accountId (accounts (snd (getAccount K accID s)) ! i) = int i
         \<and> AccountLeaf.owner (accounts (snd (getAccount K accID s)) ! i) = zeroAddress K
         \<and> nonce (accounts (snd (getAccount K accID s)) ! i) = 0
         \<and> balances (accounts (snd (getAccount K accID s)) ! i) = Map.empty
         \<and> storage (accounts (snd (getAccount K accID s)) ! i) = Map.empty)
   \<and> ExchangeState.exchange (snd (getAccount K accID s)) = ExchangeState.exchange s
   \<and> accountIdToOwner (snd (getAccount K accID s)) = accountIdToOwner s
   \<and> ownerToAccountId (snd (getAccount K accID s)) = ownerToAccountId s
   \<and> deposits (snd (getAccount K accID s)) = deposits s
   \<and> onchainWithdrawals (snd (getAccount K accID s)) = onchainWithdrawals s
   \<and> processedRequests (snd (getAccount K accID s)) = processedRequests s"
proof -
  let ?s' = "snd (getAccount K accID s)"
  let ?n = "length (accounts s)"
  let ?fresh = "\<lambda>i.
            \<lparr> AccountLeaf.exchange = zeroAddress K, accountId = int i,
              AccountLeaf.owner = zeroAddress K, publicKeyX = ''0'', publicKeyY = ''0'',
              appKeyPublicKeyX = ''0'', appKeyPublicKeyY = ''0'',
              disableAppKeySpotTrade = 0, disableAppKeyWithdraw = 0,
              disableAppKeyTransferToOther = 0, nonce = 0,
              balances = Map.empty, balancesMerkleTree = None,
              storage = Map.empty, storageTree = None \<rparr>"
  have fresh: "\<And>i. AccountLeaf_new K (int i) = ?fresh i"
    by (simp add: AccountLeaf_new_def)
  have eq: "accounts ?s' = accounts s @ map ?fresh [?n ..< nat (accID + 1)]"
    by (simp add: getAccount_accounts fresh)
  have len: "length (accounts ?s') = max ?n (nat (accID + 1))"
    by (simp add: getAccount_accounts)
  have old: "\<forall>i. i < ?n \<longrightarrow> accounts ?s' ! i = accounts s ! i"
    by (simp add: getAccount_accounts nth_append)
  have new: "\<forall>i. ?n \<le> i \<and> i < length (accounts ?s') \<longrightarrow>
      accounts ?s' ! i = ?fresh i
      \<and> accountId (accounts ?s' ! i) = int i
      \<and> AccountLeaf.owner (accounts ?s' ! i) = zeroAddress K
      \<and> nonce (accounts ?s' ! i) = 0
      \<and> balances (accounts ?s' ! i) = Map.empty
      \<and> storage (accounts ?s' ! i) = Map.empty"
  proof (intro allI impI)
    fix i assume i: "?n \<le> i \<and> i < length (accounts ?s')"
    then have "i - ?n < length [?n ..< nat (accID + 1)]"
      by (simp add: getAccount_accounts, arith)
    with i have "accounts ?s' ! i = AccountLeaf_new K (int i)"
      by (simp add: getAccount_accounts nth_append)
    then have "accounts ?s' ! i = ?fresh i"
      by (simp only: fresh)
    then show "accounts ?s' ! i = ?fresh i
      \<and> accountId (accounts ?s' ! i) = int i
      \<and> AccountLeaf.owner (accounts ?s' ! i) = zeroAddress K
      \<and> nonce (accounts ?s' ! i) = 0
      \<and> balances (accounts ?s' ! i) = Map.empty
      \<and> storage (accounts ?s' ! i) = Map.empty"
      by simp
  qed
  have fr: "ExchangeState.exchange ?s' = ExchangeState.exchange s"
    "accountIdToOwner ?s' = accountIdToOwner s"
    "ownerToAccountId ?s' = ownerToAccountId s"
    "deposits ?s' = deposits s"
    "onchainWithdrawals ?s' = onchainWithdrawals s"
    "processedRequests ?s' = processedRequests s"
    by (simp_all add: getAccount_def Let_def)
  show ?thesis by (intro conjI eq len old new fr)
qed

theorem getAccount_extends_witness:
  "length (accounts (ExchangeState_new scenario_constants ''0xEXC'' None)) = 1
   \<and> length (accounts (snd (getAccount scenario_constants 5
        (ExchangeState_new scenario_constants ''0xEXC'' None)))) = 6
   \<and> accounts (snd (getAccount scenario_constants 5
        (ExchangeState_new scenario_constants ''0xEXC'' None))) ! 0
      =
        \<lparr> AccountLeaf.exchange = ''0x0000000000000000000000000000000000000000'',
          accountId = 0,
          AccountLeaf.owner = ''0x0000000000000000000000000000000000000000'',
          publicKeyX = ''0'', publicKeyY = ''0'', appKeyPublicKeyX = ''0'',
          appKeyPublicKeyY = ''0'', disableAppKeySpotTrade = 0,
          disableAppKeyWithdraw = 0, disableAppKeyTransferToOther = 0,
          nonce = 0, balances = Map.empty, balancesMerkleTree = None,
          storage = Map.empty, storageTree = None \<rparr>
   \<and> accounts (snd (getAccount scenario_constants 5
        (ExchangeState_new scenario_constants ''0xEXC'' None))) ! 1
      =
        \<lparr> AccountLeaf.exchange = ''0x0000000000000000000000000000000000000000'',
          accountId = 1,
          AccountLeaf.owner = ''0x0000000000000000000000000000000000000000'',
          publicKeyX = ''0'', publicKeyY = ''0'', appKeyPublicKeyX = ''0'',
          appKeyPublicKeyY = ''0'', disableAppKeySpotTrade = 0,
          disableAppKeyWithdraw = 0, disableAppKeyTransferToOther = 0,
          nonce = 0, balances = Map.empty, balancesMerkleTree = None,
          storage = Map.empty, storageTree = None \<rparr>
   \<and> accounts (snd (getAccount scenario_constants 5
        (ExchangeState_new scenario_constants ''0xEXC'' None))) ! 2
      =
        \<lparr> AccountLeaf.exchange = ''0x0000000000000000000000000000000000000000'',
          accountId = 2,
          AccountLeaf.owner = ''0x0000000000000000000000000000000000000000'',
          publicKeyX = ''0'', publicKeyY = ''0'', appKeyPublicKeyX = ''0'',
          appKeyPublicKeyY = ''0'', disableAppKeySpotTrade = 0,
          disableAppKeyWithdraw = 0, disableAppKeyTransferToOther = 0,
          nonce = 0, balances = Map.empty, balancesMerkleTree = None,
          storage = Map.empty, storageTree = None \<rparr>
   \<and> accounts (snd (getAccount scenario_constants 5
        (ExchangeState_new scenario_constants ''0xEXC'' None))) ! 3
      =
        \<lparr> AccountLeaf.exchange = ''0x0000000000000000000000000000000000000000'',
          accountId = 3,
          AccountLeaf.owner = ''0x0000000000000000000000000000000000000000'',
          publicKeyX = ''0'', publicKeyY = ''0'', appKeyPublicKeyX = ''0'',
          appKeyPublicKeyY = ''0'', disableAppKeySpotTrade = 0,
          disableAppKeyWithdraw = 0, disableAppKeyTransferToOther = 0,
          nonce = 0, balances = Map.empty, balancesMerkleTree = None,
          storage = Map.empty, storageTree = None \<rparr>
   \<and> accounts (snd (getAccount scenario_constants 5
        (ExchangeState_new scenario_constants ''0xEXC'' None))) ! 4
      =
        \<lparr> AccountLeaf.exchange = ''0x0000000000000000000000000000000000000000'',
          accountId = 4,
          AccountLeaf.owner = ''0x0000000000000000000000000000000000000000'',
          publicKeyX = ''0'', publicKeyY = ''0'', appKeyPublicKeyX = ''0'',
          appKeyPublicKeyY = ''0'', disableAppKeySpotTrade = 0,
          disableAppKeyWithdraw = 0, disableAppKeyTransferToOther = 0,
          nonce = 0, balances = Map.empty, balancesMerkleTree = None,
          storage = Map.empty, storageTree = None \<rparr>
   \<and> accounts (snd (getAccount scenario_constants 5
        (ExchangeState_new scenario_constants ''0xEXC'' None))) ! 5
      =
        \<lparr> AccountLeaf.exchange = ''0x0000000000000000000000000000000000000000'',
          accountId = 5,
          AccountLeaf.owner = ''0x0000000000000000000000000000000000000000'',
          publicKeyX = ''0'', publicKeyY = ''0'', appKeyPublicKeyX = ''0'',
          appKeyPublicKeyY = ''0'', disableAppKeySpotTrade = 0,
          disableAppKeyWithdraw = 0, disableAppKeyTransferToOther = 0,
          nonce = 0, balances = Map.empty, balancesMerkleTree = None,
          storage = Map.empty, storageTree = None \<rparr>"
proof -
  have one: "accounts (ExchangeState_new scenario_constants ''0xEXC'' None)
      = [AccountLeaf_new scenario_constants 0]"
    by (simp add: ExchangeState_new_def getAccount_accounts)
  have upt: "[Suc 0 ..< 6] = [1, 2, 3, 4, 5]"
    by (simp add: upt_rec)
  have z: "zeroAddress scenario_constants = ''0x0000000000000000000000000000000000000000''"
    by (simp add: scenario_constants_def)
  show ?thesis
    using getAccount_extends
      [of scenario_constants 5 "ExchangeState_new scenario_constants ''0xEXC'' None"]
    by (simp add: one upt z AccountLeaf_new_def)
qed

text \<open>
  C2, as amended. \<open>getBalance\<close>, \<open>getStorage\<close> and \<open>getAccount\<close> leave the \<open>accountId\<close> of
  every existing account as it is (\<open>getAccount\<close> leaves the existing accounts themselves
  as they are); \<open>AccountLeaf.init\<close> sets \<open>accountId\<close> to 0.
\<close>

theorem accountId_preserved:
  "accountId (AccountLeaf_init K own pkX pkY appX appY nce bals stor a) = 0
   \<and> accountId (snd (getBalance tokID a)) = accountId a
   \<and> accountId (snd (getStorage K stID a)) = accountId a
   \<and> take (length (accounts s)) (accounts (snd (getAccount K accID s))) = accounts s"
  by (simp add: AccountLeaf_init_def getBalance_def getStorage_def Let_def getAccount_accounts)

text \<open>
  C2 as stated fails on \<open>init\<close>: called on the account constructed with \<open>accountId = 5\<close>,
  it leaves \<open>accountId = 0\<close>.
\<close>

theorem AccountLeaf_init_counterexample:
  "accountId (AccountLeaf_new scenario_constants 5) = 5
   \<and> accountId (AccountLeaf_init scenario_constants ''0xabc'' ''1'' ''2'' ''3'' ''4'' 0 None None
        (AccountLeaf_new scenario_constants 5)) = 0"
  by (simp add: AccountLeaf_init_def AccountLeaf_new_def)

subsection \<open>The owner index\<close>

lemma registered_getAccount:
  "registered K (snd (getAccount K accID s)) i own = registered K s i own"
proof (cases "0 \<le> i \<and> i < int (length (accounts s))")
  case True
  then show ?thesis
    by (auto simp: registered_def getAccount_accounts nth_append)
next
  case False
  have "\<not> registered K s i own"
    using False by (auto simp: registered_def)
  moreover have "\<not> registered K (snd (getAccount K accID s)) i own"
  proof
    assume r: "registered K (snd (getAccount K accID s)) i own"
    then have i: "0 \<le> i" "length (accounts s) \<le> nat i"
      "nat i < length (accounts (snd (getAccount K accID s)))"
      using False by (auto simp: registered_def)
    then have "nat i - length (accounts s) < length [length (accounts s) ..< nat (accID + 1)]"
      by (auto simp: getAccount_accounts)
    with i have "accounts (snd (getAccount K accID s)) ! nat i = AccountLeaf_new K (int (nat i))"
      by (simp add: getAccount_accounts nth_append)
    then have "AccountLeaf.owner (accounts (snd (getAccount K accID s)) ! nat i) = zeroAddress K"
      by (simp add: AccountLeaf_new_def)
    with r show False by (auto simp: registered_def)
  qed
  ultimately show ?thesis by simp
qed

lemma getAccount_maps:
  "accountIdToOwner (snd (getAccount K accID s)) = accountIdToOwner s"
  "ownerToAccountId (snd (getAccount K accID s)) = ownerToAccountId s"
  by (simp_all add: getAccount_def Let_def)

lemma owner_bijection_getAccount:
  "owner_bijection K (snd (getAccount K accID s)) = owner_bijection K s"
  by (simp add: owner_bijection_def registered_getAccount getAccount_maps)

lemma reachable_maps_empty:
  "reachable K accs s \<Longrightarrow> accountIdToOwner s = Map.empty \<and> ownerToAccountId s = Map.empty"
proof (induction rule: reachable.induct)
  case (constructed exch)
  show ?case by (simp add: ExchangeState_new_def getAccount_def Let_def)
next
  case (got_account s accID)
  then show ?case by (simp add: getAccount_maps)
qed

lemma ExchangeState_new_accounts:
  "accounts (ExchangeState_new K exch accs)
     = (case accs of None \<Rightarrow> [] | Some a \<Rightarrow> a)
       @ map (\<lambda>i. AccountLeaf_new K (int i))
           [length (case accs of None \<Rightarrow> [] | Some a \<Rightarrow> a) ..< 1]"
  by (simp add: ExchangeState_new_def getAccount_accounts)

lemma reachable_unregistered:
  assumes "reachable K accs s"
    and "\<forall>a \<in> set (case accs of None \<Rightarrow> [] | Some a \<Rightarrow> a). AccountLeaf.owner a = zeroAddress K"
  shows "\<forall>a \<in> set (accounts s). AccountLeaf.owner a = zeroAddress K"
  using assms
proof (induction rule: reachable.induct)
  case (constructed exch)
  then show ?case
    by (auto simp: ExchangeState_new_accounts AccountLeaf_new_def)
next
  case (got_account s accID)
  then show ?case
    by (auto simp: getAccount_accounts AccountLeaf_new_def)
qed

text \<open>
  C8, as amended. \<open>getAccount\<close> preserves the owner bijection in every state, whatever the
  two dictionaries hold: it appends only unregistered accounts and does not touch the
  dictionaries. In every state reachable from the constructor by \<open>getAccount\<close> both
  dictionaries are empty; if no account supplied to the constructor is registered (in
  particular for the empty or omitted list), no account of a reachable state is
  registered and the owner bijection holds.
\<close>

theorem owner_bijection_invariant:
  "(owner_bijection K s \<longrightarrow>
      owner_bijection K (snd (getAccount K accID s))
      \<and> (\<forall>i own. registered K (snd (getAccount K accID s)) i own \<longrightarrow>
            accountIdToOwner (snd (getAccount K accID s)) i = Some own
            \<and> ownerToAccountId (snd (getAccount K accID s)) own = Some i))
   \<and> (reachable K accs t \<longrightarrow>
        accountIdToOwner t = Map.empty \<and> ownerToAccountId t = Map.empty
        \<and> ((\<forall>a \<in> set (case accs of None \<Rightarrow> [] | Some a \<Rightarrow> a).
               AccountLeaf.owner a = zeroAddress K) \<longrightarrow>
             (\<forall>a \<in> set (accounts t). AccountLeaf.owner a = zeroAddress K)
             \<and> owner_bijection K t))"
proof (intro conjI impI)
  assume "owner_bijection K s"
  then show b: "owner_bijection K (snd (getAccount K accID s))"
    by (simp add: owner_bijection_getAccount)
  then show "\<forall>i own. registered K (snd (getAccount K accID s)) i own \<longrightarrow>
      accountIdToOwner (snd (getAccount K accID s)) i = Some own
      \<and> ownerToAccountId (snd (getAccount K accID s)) own = Some i"
    by (simp add: owner_bijection_def)
next
  assume r: "reachable K accs t"
  then show "accountIdToOwner t = Map.empty" and "ownerToAccountId t = Map.empty"
    by (simp_all add: reachable_maps_empty)
next
  assume r: "reachable K accs t"
    and z: "\<forall>a \<in> set (case accs of None \<Rightarrow> [] | Some a \<Rightarrow> a). AccountLeaf.owner a = zeroAddress K"
  then show u: "\<forall>a \<in> set (accounts t). AccountLeaf.owner a = zeroAddress K"
    by (rule reachable_unregistered)
  then have "\<And>i own. \<not> registered K t i own"
    by (auto simp: registered_def)
  with reachable_maps_empty [OF r] show "owner_bijection K t"
    by (simp add: owner_bijection_def)
qed

theorem owner_bijection_invariant_witness:
  "owner_bijection scenario_constants
     ((ExchangeState_new scenario_constants ''0xEXC''
         (Some [AccountLeaf_init scenario_constants ''0xabc'' ''1'' ''2'' ''3'' ''4'' 0 None None
                  (AccountLeaf_new scenario_constants 0)]))
        \<lparr> accountIdToOwner := [0 \<mapsto> ''0xabc''], ownerToAccountId := [''0xabc'' \<mapsto> 0] \<rparr>)
   \<and> owner_bijection scenario_constants
       (snd (getAccount scenario_constants 3
         ((ExchangeState_new scenario_constants ''0xEXC''
             (Some [AccountLeaf_init scenario_constants ''0xabc'' ''1'' ''2'' ''3'' ''4'' 0 None None
                      (AccountLeaf_new scenario_constants 0)]))
            \<lparr> accountIdToOwner := [0 \<mapsto> ''0xabc''], ownerToAccountId := [''0xabc'' \<mapsto> 0] \<rparr>)))
   \<and> reachable scenario_constants None
       (snd (getAccount scenario_constants 3 (ExchangeState_new scenario_constants ''0xEXC'' None)))
   \<and> owner_bijection scenario_constants
       (snd (getAccount scenario_constants 3 (ExchangeState_new scenario_constants ''0xEXC'' None)))
   \<and> accountIdToOwner
       (snd (getAccount scenario_constants 3 (ExchangeState_new scenario_constants ''0xEXC'' None)))
      = Map.empty"
proof -
  let ?a = "AccountLeaf_init scenario_constants ''0xabc'' ''1'' ''2'' ''3'' ''4'' 0 None None
              (AccountLeaf_new scenario_constants 0)"
  let ?s = "(ExchangeState_new scenario_constants ''0xEXC'' (Some [?a]))
              \<lparr> accountIdToOwner := [0 \<mapsto> ''0xabc''], ownerToAccountId := [''0xabc'' \<mapsto> 0] \<rparr>"
  let ?t = "snd (getAccount scenario_constants 3
              (ExchangeState_new scenario_constants ''0xEXC'' None))"
  have acc: "accounts ?s = [?a]"
    by (simp add: ExchangeState_new_accounts)
  have own: "AccountLeaf.owner ?a = ''0xabc''" "''0xabc'' \<noteq> zeroAddress scenario_constants"
    by (simp_all add: AccountLeaf_init_def scenario_constants_def)
  have reg: "\<And>i w. registered scenario_constants ?s i w \<longleftrightarrow> i = 0 \<and> w = ''0xabc''"
    using own by (auto simp: registered_def acc)
  have b: "owner_bijection scenario_constants ?s"
    by (auto simp: owner_bijection_def reg split: if_splits)
  have r: "reachable scenario_constants None ?t"
    by (intro reachable.intros)
  have z: "\<forall>a \<in> set (case None of None \<Rightarrow> [] | Some a \<Rightarrow> a).
      AccountLeaf.owner a = zeroAddress scenario_constants"
    by simp
  show ?thesis
    using owner_bijection_invariant [of scenario_constants ?s 3 None ?t] b r z
    by blast
qed

text \<open>
  C8 as stated fails when the constructor is given a registered account: the constructor
  keeps the account and sets both dictionaries to \<open>{}\<close>, so account 0 is registered with
  owner \<open>0xabc\<close> and \<open>accountIdToOwner[0]\<close> is \<open>undefined\<close>.
\<close>

theorem owner_bijection_counterexample:
  "reachable scenario_constants
     (Some [AccountLeaf_init scenario_constants ''0xabc'' ''1'' ''2'' ''3'' ''4'' 0 None None
              (AccountLeaf_new scenario_constants 0)])
     (ExchangeState_new scenario_constants ''0xEXC''
       (Some [AccountLeaf_init scenario_constants ''0xabc'' ''1'' ''2'' ''3'' ''4'' 0 None None
                (AccountLeaf_new scenario_constants 0)]))
   \<and> registered scenario_constants
       (ExchangeState_new scenario_constants ''0xEXC''
         (Some [AccountLeaf_init scenario_constants ''0xabc'' ''1'' ''2'' ''3'' ''4'' 0 None None
                  (AccountLeaf_new scenario_constants 0)]))
       0 ''0xabc''
   \<and> accountIdToOwner
       (ExchangeState_new scenario_constants ''0xEXC''
         (Some [AccountLeaf_init scenario_constants ''0xabc'' ''1'' ''2'' ''3'' ''4'' 0 None None
                  (AccountLeaf_new scenario_constants 0)]))
       0 = None
   \<and> \<not> owner_bijection scenario_constants
       (ExchangeState_new scenario_constants ''0xEXC''
         (Some [AccountLeaf_init scenario_constants ''0xabc'' ''1'' ''2'' ''3'' ''4'' 0 None None
                  (AccountLeaf_new scenario_constants 0)]))"
proof -
  let ?a = "AccountLeaf_init scenario_constants ''0xabc'' ''1'' ''2'' ''3'' ''4'' 0 None None
              (AccountLeaf_new scenario_constants 0)"
  let ?s = "ExchangeState_new scenario_constants ''0xEXC'' (Some [?a])"
  have r: "reachable scenario_constants (Some [?a]) ?s"
    by (rule reachable.constructed)
  have acc: "accounts ?s = [?a]"
    by (simp add: ExchangeState_new_accounts)
  have own: "AccountLeaf.owner ?a = ''0xabc''" "''0xabc'' \<noteq> zeroAddress scenario_constants"
    by (simp_all add: AccountLeaf_init_def scenario_constants_def)
  have reg: "registered scenario_constants ?s 0 ''0xabc''"
    using own by (simp add: registered_def acc)
  have m: "accountIdToOwner ?s 0 = None"
    by (simp add: ExchangeState_new_def getAccount_maps)
  have "\<not> owner_bijection scenario_constants ?s"
  proof
    assume "owner_bijection scenario_constants ?s"
    with reg have "accountIdToOwner ?s 0 = Some ''0xabc''"
      by (simp add: owner_bijection_def)
    with m show False by simp
  qed
  with r reg m show ?thesis by (intro conjI)
qed

end
